theory Spec2Isabelle
  imports Main "HOL-Library.Word" "HOL-Library.Sublist"
begin

section \<open>JavaScript values used by the stores\<close>

subsection \<open>Numbers\<close>

text \<open>
  \<^verbatim>\<open>count: number\<close> is an IEEE-754 double. Every value the counter takes is an
  integer, so the model keeps it as an \<open>int\<close> and writes the rounding of the double
  sum out: an integer of magnitude up to \<open>2^53\<close> is a double; a larger one is rounded
  to the nearest multiple of its unit in the last place (53 significant bits), a tie
  going to the multiple with the even significand. A double plus or minus one stays
  far below the largest double, so the rounding never has to give infinity.
\<close>

function bit_length :: "int \<Rightarrow> nat" where
  "bit_length n = (if n \<le> 0 then 0 else Suc (bit_length (n div 2)))"
  by pat_completeness auto
termination
  by (relation "measure nat") auto

declare bit_length.simps [simp del]

definition round_double :: "int \<Rightarrow> int" where
  "round_double x =
     (let a = \<bar>x\<bar> in
      if a \<le> 2 ^ 53 then x
      else
        let q = 2 ^ (bit_length a - 53);
            k = a div q;
            r = a mod q;
            m = (if 2 * r < q \<or> (2 * r = q \<and> even k) then k * q else (k + 1) * q)
        in sgn x * m)"

text \<open>\<^verbatim>\<open>a + b\<close> and \<^verbatim>\<open>a - b\<close> on integer-valued doubles.\<close>

definition js_add :: "int \<Rightarrow> int \<Rightarrow> int" where
  "js_add a b = round_double (a + b)"

definition js_sub :: "int \<Rightarrow> int \<Rightarrow> int" where
  "js_sub a b = round_double (a - b)"

subsection \<open>Strings\<close>

text \<open>A JavaScript string is a sequence of UTF-16 code units.\<close>

type_synonym js_char = "16 word"
type_synonym js_string = "js_char list"

definition digit :: "int \<Rightarrow> js_char" where
  "digit d = of_int (48 + d)"

text \<open>The decimal digits of a number that is not negative, most significant first.\<close>

function digits :: "int \<Rightarrow> js_string" where
  "digits n = (if n < 10 then [digit n] else digits (n div 10) @ [digit (n mod 10)])"
  by pat_completeness auto
termination
  by (relation "measure nat") auto

declare digits.simps [simp del]

text \<open>
  \<^verbatim>\<open>Number.prototype.toString()\<close> on an integer time value: the decimal digits, after
  a minus sign (code unit 45) when negative. \<^verbatim>\<open>Date.now()\<close> returns an integer
  number of milliseconds of magnitude at most \<open>8.64 * 10^15\<close>, far below \<open>10^21\<close>
  where the exponent notation would start.
\<close>

definition toString :: "int \<Rightarrow> js_string" where
  "toString i = (if i < 0 then 45 # digits (- i) else digits i)"

text \<open>
  \<^verbatim>\<open>String.prototype.trim()\<close> strips WhiteSpace and LineTerminator code units from
  both ends: TAB, VT, FF, SP, NBSP, ZWNBSP and the Unicode space separators; LF, CR, LS, PS.
\<close>

definition isWhiteSpace :: "js_char \<Rightarrow> bool" where
  "isWhiteSpace c \<longleftrightarrow>
     c \<in> {0x0009, 0x000B, 0x000C, 0x0020, 0x00A0, 0xFEFF, 0x1680,
          0x2000, 0x2001, 0x2002, 0x2003, 0x2004, 0x2005, 0x2006, 0x2007, 0x2008,
          0x2009, 0x200A, 0x202F, 0x205F, 0x3000,
          0x000A, 0x000D, 0x2028, 0x2029}"

definition trim :: "js_string \<Rightarrow> js_string" where
  "trim s = rev (dropWhile isWhiteSpace (rev (dropWhile isWhiteSpace s)))"

section \<open>The stores keyed on todo ids\<close>

subsection \<open>src/app/context.tsx\<close>

text \<open>The fields \<^verbatim>\<open>id\<close> and \<^verbatim>\<open>text\<close> of a todo are primed: both names are taken.\<close>

record Todo =
  id' :: js_string
  text' :: js_string

record State =
  count :: int
  todos :: "Todo list"

datatype Action =
    INCREMENT
  | DECREMENT
  | ADD_TODO js_string
  | REMOVE_TODO js_string

text \<open>
  The reducer reads the clock in its \<^verbatim>\<open>ADD_TODO\<close> case; \<open>now\<close> is the value
  \<^verbatim>\<open>Date.now()\<close> returns during the call.
\<close>

fun reducer :: "int \<Rightarrow> State \<Rightarrow> Action \<Rightarrow> State" where
  "reducer now state INCREMENT = state\<lparr>count := js_add (count state) 1\<rparr>"
| "reducer now state DECREMENT = state\<lparr>count := js_sub (count state) 1\<rparr>"
| "reducer now state (ADD_TODO txt) =
     state\<lparr>todos := todos state @ [\<lparr>id' = toString now, text' = txt\<rparr>]\<rparr>"
| "reducer now state (REMOVE_TODO ref) =
     state\<lparr>todos := filter (\<lambda>todo. id' todo \<noteq> ref) (todos state)\<rparr>"

text \<open>\<^verbatim>\<open>useReducer(reducer, {count: 0, todos: []})\<close>\<close>

definition initialState :: State where
  "initialState = \<lparr>count = 0, todos = []\<rparr>"

text \<open>
  A session: the dispatches in order, each with the clock reading at that moment;
  every dispatch replaces the state by \<open>reducer state action\<close>.
\<close>

fun dispatch :: "State \<Rightarrow> (int \<times> Action) list \<Rightarrow> State" where
  "dispatch state [] = state"
| "dispatch state ((now, action) # rest) = dispatch (reducer now state action) rest"

subsection \<open>src/app/zustand.tsx\<close>

text \<open>
  \<^verbatim>\<open>create<StoreState>((set) => ...)\<close>: the data fields of the store are those of
  \<open>State\<close>, starting at \<open>initialState\<close>; \<^verbatim>\<open>set\<close> merges the fields the
  updater returns into the current state.
\<close>

definition increment :: "State \<Rightarrow> State" where
  "increment state = state\<lparr>count := js_add (count state) 1\<rparr>"

definition decrement :: "State \<Rightarrow> State" where
  "decrement state = state\<lparr>count := js_sub (count state) 1\<rparr>"

definition addTodo :: "int \<Rightarrow> js_string \<Rightarrow> State \<Rightarrow> State" where
  "addTodo now txt state =
     state\<lparr>todos := todos state @ [\<lparr>id' = toString now, text' = txt\<rparr>]\<rparr>"

definition removeTodo :: "js_string \<Rightarrow> State \<Rightarrow> State" where
  "removeTodo ref state =
     state\<lparr>todos := filter (\<lambda>todo. id' todo \<noteq> ref) (todos state)\<rparr>"

text \<open>
  \<^verbatim>\<open>ZustandScreen\<close> wires the two counter buttons to \<^verbatim>\<open>increment\<close> and
  \<^verbatim>\<open>decrement\<close> and the two callbacks of \<^verbatim>\<open>BaseScreen\<close> to \<^verbatim>\<open>addTodo\<close> and
  \<^verbatim>\<open>removeTodo\<close>; a session is the list of these calls, written with the action of
  the same name, each with the clock reading at that moment.
\<close>

fun useStore :: "State \<Rightarrow> (int \<times> Action) list \<Rightarrow> State" where
  "useStore state [] = state"
| "useStore state ((now, INCREMENT) # rest) = useStore (increment state) rest"
| "useStore state ((now, DECREMENT) # rest) = useStore (decrement state) rest"
| "useStore state ((now, ADD_TODO txt) # rest) = useStore (addTodo now txt state) rest"
| "useStore state ((now, REMOVE_TODO ref) # rest) = useStore (removeTodo ref state) rest"

subsection \<open>src/app/mobx.tsx\<close>

text \<open>
  \<^verbatim>\<open>class Store\<close> with the fields \<^verbatim>\<open>count = 0\<close> and \<^verbatim>\<open>todos = []\<close>; its methods
  assign to \<^verbatim>\<open>this\<close>, here the state passed in and returned.
\<close>

definition Store_increment :: "State \<Rightarrow> State" where
  "Store_increment this = this\<lparr>count := js_add (count this) 1\<rparr>"

definition Store_decrement :: "State \<Rightarrow> State" where
  "Store_decrement this = this\<lparr>count := js_sub (count this) 1\<rparr>"

definition Store_addTodo :: "int \<Rightarrow> js_string \<Rightarrow> State \<Rightarrow> State" where
  "Store_addTodo now txt this =
     this\<lparr>todos := todos this @ [\<lparr>id' = toString now, text' = txt\<rparr>]\<rparr>"

definition Store_removeTodo :: "js_string \<Rightarrow> State \<Rightarrow> State" where
  "Store_removeTodo ref this =
     this\<lparr>todos := filter (\<lambda>todo. id' todo \<noteq> ref) (todos this)\<rparr>"

fun Store :: "State \<Rightarrow> (int \<times> Action) list \<Rightarrow> State" where
  "Store this [] = this"
| "Store this ((now, INCREMENT) # rest) = Store (Store_increment this) rest"
| "Store this ((now, DECREMENT) # rest) = Store (Store_decrement this) rest"
| "Store this ((now, ADD_TODO txt) # rest) = Store (Store_addTodo now txt this) rest"
| "Store this ((now, REMOVE_TODO ref) # rest) = Store (Store_removeTodo ref this) rest"

section \<open>The store keyed on positions (src/store/context/store.ts)\<close>

text \<open>
  The state nests \<^verbatim>\<open>counter: {value}\<close> and \<^verbatim>\<open>todos: {items}\<close>; the items are plain
  strings. The names carry the suffix \<open>_ix\<close> where the id-keyed stores have taken them.
\<close>

record Counter_ix =
  value_ix :: int

record Todos_ix =
  items :: "js_string list"

record State_ix =
  counter :: Counter_ix
  todos_ix :: Todos_ix

text \<open>
  The payload of \<^verbatim>\<open>REMOVE_TODO\<close> is a \<^verbatim>\<open>number\<close>; an integer here, negative
  ones included (a payload that is no integer equals no index either).
\<close>

datatype Action_ix =
    INCREMENT_ix
  | DECREMENT_ix
  | ADD_TODO_ix js_string
  | REMOVE_TODO_ix int

definition initialState_ix :: State_ix where
  "initialState_ix = \<lparr>counter = \<lparr>value_ix = 0\<rparr>, todos_ix = \<lparr>items = []\<rparr>\<rparr>"

text \<open>\<^verbatim>\<open>xs.filter((_, index) => p(index))\<close>: the elements whose position satisfies \<open>p\<close>.\<close>

definition filter_index :: "(nat \<Rightarrow> bool) \<Rightarrow> 'a list \<Rightarrow> 'a list" where
  "filter_index p xs = map snd (filter (\<lambda>(index, _). p index) (zip [0..<length xs] xs))"

fun reducer_ix :: "State_ix \<Rightarrow> Action_ix \<Rightarrow> State_ix" where
  "reducer_ix state INCREMENT_ix =
     state\<lparr>counter := \<lparr>value_ix = js_add (value_ix (counter state)) 1\<rparr>\<rparr>"
| "reducer_ix state DECREMENT_ix =
     state\<lparr>counter := \<lparr>value_ix = js_sub (value_ix (counter state)) 1\<rparr>\<rparr>"
| "reducer_ix state (ADD_TODO_ix payload) =
     state\<lparr>todos_ix := \<lparr>items = items (todos_ix state) @ [payload]\<rparr>\<rparr>"
| "reducer_ix state (REMOVE_TODO_ix payload) =
     state\<lparr>todos_ix :=
       \<lparr>items = filter_index (\<lambda>index. int index \<noteq> payload) (items (todos_ix state))\<rparr>\<rparr>"

section \<open>The add handler of src/components/BaseScreen.tsx\<close>

text \<open>
  The component holds the input text \<^verbatim>\<open>newTodo\<close>; the screen's store is reached only
  through the callback \<^verbatim>\<open>onAddTodo\<close>. A non-empty string is truthy.
  \<^verbatim>\<open>if (newTodo.trim()) { onAddTodo(newTodo); setNewTodo(""); }\<close>
\<close>

definition onPress :: "(js_string \<Rightarrow> 's \<Rightarrow> 's) \<Rightarrow> js_string \<times> 's \<Rightarrow> js_string \<times> 's" where
  "onPress onAddTodo = (\<lambda>(newTodo, store).
     if trim newTodo \<noteq> [] then ([], onAddTodo newTodo store) else (newTodo, store))"

text \<open>A callback that only records the texts it is called with, in order.\<close>

definition record_call :: "js_string \<Rightarrow> js_string list \<Rightarrow> js_string list" where
  "record_call txt calls = calls @ [txt]"

section \<open>Quantities the statements speak of\<close>

text \<open>The number of increment calls and of decrement calls in a session.\<close>

definition increments :: "(int \<times> Action) list \<Rightarrow> nat" where
  "increments calls = length (filter (\<lambda>call. snd call = INCREMENT) calls)"

definition decrements :: "(int \<times> Action) list \<Rightarrow> nat" where
  "decrements calls = length (filter (\<lambda>call. snd call = DECREMENT) calls)"

text \<open>
  The running count of a session: increments so far minus decrements so far, after
  each of its calls (and before the first).
\<close>

definition running :: "(int \<times> Action) list \<Rightarrow> int list" where
  "running calls = map (\<lambda>p. int (increments p) - int (decrements p)) (prefixes calls)"

text \<open>Consecutive \<^verbatim>\<open>addTodo\<close> calls, given by the clock reading and the text of each.\<close>

definition addTodos :: "(int \<times> js_string) list \<Rightarrow> (int \<times> Action) list" where
  "addTodos adds = map (\<lambda>(now, txt). (now, ADD_TODO txt)) adds"

text \<open>The number a string of decimal digits denotes.\<close>

definition decimal :: "js_string \<Rightarrow> int" where
  "decimal s = foldl (\<lambda>acc c. 10 * acc + (uint c - 48)) 0 s"

section \<open>Numbers and strings\<close>

lemma round_double_exact: "\<bar>x\<bar> \<le> 2 ^ 53 \<Longrightarrow> round_double x = x"
  by (simp add: round_double_def)

lemma bit_length_bounds: "2 ^ k \<le> n \<Longrightarrow> n < 2 ^ Suc k \<Longrightarrow> bit_length n = Suc k"
proof (induction k arbitrary: n)
  case 0
  then have "n = 1" by simp
  then show ?case by (simp add: bit_length.simps)
next
  case (Suc k)
  have "2 ^ k \<le> n div 2" using Suc.prems by simp
  moreover have "n div 2 < 2 ^ Suc k" using Suc.prems by simp
  ultimately have "bit_length (n div 2) = Suc k" by (rule Suc.IH)
  moreover have "(0::int) < 2 ^ Suc k" by simp
  then have "0 < n" using Suc.prems(1) by linarith
  ultimately show ?case by (subst bit_length.simps) simp
qed

lemma bit_length_54: "bit_length 9007199254740993 = 54"
  using bit_length_bounds [of 53 9007199254740993] by simp

lemma round_double_above: "round_double (2 ^ 53 + 1) = 2 ^ 53"
  by (simp add: round_double_def bit_length_54 Let_def)

lemma round_double_below: "round_double (- (2 ^ 53) - 1) = - (2 ^ 53)"
  by (simp add: round_double_def bit_length_54 Let_def)

lemma digits_small: "n < 10 \<Longrightarrow> digits n = [digit n]"
  by (subst digits.simps) simp

lemma digits_large: "\<not> n < 10 \<Longrightarrow> digits n = digits (n div 10) @ [digit (n mod 10)]"
  by (subst digits.simps) simp

lemma uint_digit: "0 \<le> d \<Longrightarrow> d < 10 \<Longrightarrow> uint (digit d) = 48 + d"
proof -
  assume d: "0 \<le> d" "d < 10"
  have "uint (word_of_int (48 + d) :: 16 word) = take_bit 16 (48 + d)"
    by (simp only: uint_word_of_int_eq len_bit0 len_num1) simp
  also have "\<dots> = 48 + d"
    using d by (simp add: take_bit_eq_mod)
  finally show ?thesis by (simp only: digit_def)
qed

lemma decimal_snoc: "decimal (s @ [c]) = 10 * decimal s + (uint c - 48)"
  by (simp add: decimal_def)

lemma decimal_digits: "0 \<le> n \<Longrightarrow> decimal (digits n) = n"
proof (induction n rule: digits.induct)
  case (1 n)
  show ?case
  proof (cases "n < 10")
    case True
    with "1.prems" show ?thesis
      by (simp add: digits_small decimal_def uint_digit)
  next
    case False
    then have "decimal (digits (n div 10)) = n div 10"
      using "1.IH" "1.prems" by simp
    moreover have "uint (digit (n mod 10)) = 48 + n mod 10"
      by (rule uint_digit) simp_all
    ultimately show ?thesis using False
      by (simp add: digits_large decimal_snoc)
  qed
qed

lemma digits_not_minus: "0 \<le> n \<Longrightarrow> c \<in> set (digits n) \<Longrightarrow> c \<noteq> 45"
proof (induction n rule: digits.induct)
  case (1 n)
  show ?case
  proof (cases "n < 10")
    case True
    with "1.prems" have "c = digit n" by (simp add: digits_small)
    moreover have "uint (digit n) = 48 + n" using True "1.prems" by (simp add: uint_digit)
    ultimately show ?thesis using "1.prems"(1) by auto
  next
    case False
    with "1.prems" have "c \<in> set (digits (n div 10)) \<or> c = digit (n mod 10)"
      by (auto simp add: digits_large)
    moreover have "uint (digit (n mod 10)) = 48 + n mod 10"
      by (rule uint_digit) simp_all
    moreover have "0 \<le> n mod 10" by simp
    ultimately show ?thesis using "1.IH" False "1.prems"(1) by fastforce
  qed
qed

lemma digits_nonempty: "digits n \<noteq> []"
  by (cases "n < 10") (simp_all add: digits_small digits_large)

lemma hd_digits: "0 \<le> n \<Longrightarrow> hd (digits n) \<noteq> 45"
  using digits_not_minus [of n "hd (digits n)"] digits_nonempty [of n] by simp

lemma toString_inj: "toString i = toString j \<Longrightarrow> i = j"
proof -
  assume eq: "toString i = toString j"
  consider "i < 0" "j < 0" | "i < 0" "0 \<le> j" | "0 \<le> i" "j < 0" | "0 \<le> i" "0 \<le> j"
    by linarith
  then show ?thesis
  proof cases
    case 1
    with eq have "digits (- i) = digits (- j)" by (simp add: toString_def)
    then have "decimal (digits (- i)) = decimal (digits (- j))" by simp
    with 1 show ?thesis by (simp add: decimal_digits)
  next
    case 2
    with eq have "digits j = 45 # digits (- i)" by (simp add: toString_def)
    then have "hd (digits j) = 45" by simp
    with 2 hd_digits show ?thesis by blast
  next
    case 3
    with eq have "digits i = 45 # digits (- j)" by (simp add: toString_def)
    then have "hd (digits i) = 45" by simp
    with 3 hd_digits show ?thesis by blast
  next
    case 4
    with eq have "digits i = digits j" by (simp add: toString_def)
    then have "decimal (digits i) = decimal (digits j)" by simp
    with 4 show ?thesis by (simp add: decimal_digits)
  qed
qed

lemma toString_eq_iff: "toString i = toString j \<longleftrightarrow> i = j"
  using toString_inj by blast

section \<open>The three id-keyed stores make the same transitions\<close>

lemma increment_reducer: "increment state = reducer now state INCREMENT"
  by (simp add: increment_def)

lemma decrement_reducer: "decrement state = reducer now state DECREMENT"
  by (simp add: decrement_def)

lemma addTodo_reducer: "addTodo now txt state = reducer now state (ADD_TODO txt)"
  by (simp add: addTodo_def)

lemma removeTodo_reducer: "removeTodo ref state = reducer now state (REMOVE_TODO ref)"
  by (simp add: removeTodo_def)

lemma Store_increment_reducer: "Store_increment state = reducer now state INCREMENT"
  by (simp add: Store_increment_def)

lemma Store_decrement_reducer: "Store_decrement state = reducer now state DECREMENT"
  by (simp add: Store_decrement_def)

lemma Store_addTodo_reducer: "Store_addTodo now txt state = reducer now state (ADD_TODO txt)"
  by (simp add: Store_addTodo_def)

lemma Store_removeTodo_reducer:
  "Store_removeTodo ref state = reducer now state (REMOVE_TODO ref)"
  by (simp add: Store_removeTodo_def)

lemma useStore_dispatch: "useStore state calls = dispatch state calls"
proof (induction state calls rule: useStore.induct)
  case (1 state)
  show ?case by simp
next
  case (2 state now rest)
  then show ?case by (simp add: increment_reducer [of _ now])
next
  case (3 state now rest)
  then show ?case by (simp add: decrement_reducer [of _ now])
next
  case (4 state now t rest)
  then show ?case by (simp add: addTodo_reducer)
next
  case (5 state now ref rest)
  then show ?case by (simp add: removeTodo_reducer [of _ _ now])
qed

lemma Store_dispatch: "Store state calls = dispatch state calls"
proof (induction state calls rule: Store.induct)
  case (1 s)
  show ?case by simp
next
  case (2 s now rest)
  then show ?case by (simp add: Store_increment_reducer [of _ now])
next
  case (3 s now rest)
  then show ?case by (simp add: Store_decrement_reducer [of _ now])
next
  case (4 s now t rest)
  then show ?case by (simp add: Store_addTodo_reducer)
next
  case (5 s now ref rest)
  then show ?case by (simp add: Store_removeTodo_reducer [of _ _ now])
qed

lemma dispatch_append:
  "dispatch state (calls @ rest) = dispatch (dispatch state calls) rest"
  by (induction state calls rule: dispatch.induct) simp_all

section \<open>The counter\<close>

lemma increments_Cons:
  "increments (call # calls) = (if snd call = INCREMENT then 1 else 0) + increments calls"
  by (simp add: increments_def)

lemma decrements_Cons:
  "decrements (call # calls) = (if snd call = DECREMENT then 1 else 0) + decrements calls"
  by (simp add: decrements_def)

lemma increments_Nil: "increments [] = 0"
  by (simp add: increments_def)

lemma decrements_Nil: "decrements [] = 0"
  by (simp add: decrements_def)

lemma dispatch_counter:
  assumes "snd ` set calls \<subseteq> {INCREMENT, DECREMENT}"
    and "list_all (\<lambda>p. \<bar>count state + (int (increments p) - int (decrements p))\<bar> \<le> 2 ^ 53)
           (prefixes calls)"
  shows "count (dispatch state calls)
           = count state + (int (increments calls) - int (decrements calls))"
  using assms
proof (induction calls arbitrary: state)
  case Nil
  show ?case by (simp add: increments_Nil decrements_Nil)
next
  case (Cons call calls)
  obtain now action where call: "call = (now, action)" by (cases call)
  let ?step = "(if action = INCREMENT then 1 else 0) - (if action = DECREMENT then 1 else 0) :: int"
  let ?next = "reducer now state action"
  from Cons.prems(1) call have action: "action = INCREMENT \<or> action = DECREMENT" by simp
  from Cons.prems(2) have all:
    "list_all (\<lambda>p. \<bar>count state + (int (increments (call # p)) - int (decrements (call # p)))\<bar> \<le> 2 ^ 53)
       (prefixes calls)"
    by (simp add: list_all_iff)
  then have "\<bar>count state + (int (increments [call]) - int (decrements [call]))\<bar> \<le> 2 ^ 53"
    by (simp add: list_all_iff)
  then have bound: "\<bar>count state + ?step\<bar> \<le> 2 ^ 53"
    using call
    by (auto simp add: increments_Cons decrements_Cons increments_Nil decrements_Nil
        split: if_splits)
  have step: "count ?next = count state + ?step"
    using action bound by (auto simp add: js_add_def js_sub_def round_double_exact)
  have "list_all (\<lambda>p. \<bar>count ?next + (int (increments p) - int (decrements p))\<bar> \<le> 2 ^ 53)
          (prefixes calls)"
    using all call action
    by (auto simp add: step list_all_iff increments_Cons decrements_Cons)
  moreover from Cons.prems(1) have "snd ` set calls \<subseteq> {INCREMENT, DECREMENT}" by simp
  ultimately have "count (dispatch ?next calls)
      = count ?next + (int (increments calls) - int (decrements calls))"
    by (rule Cons.IH [rotated])
  then show ?case
    using call by (simp add: step increments_Cons decrements_Cons)
qed

lemma increments_replicate: "increments (replicate n (now, INCREMENT)) = n"
  by (induction n) (simp_all add: increments_def)

lemma decrements_replicate: "decrements (replicate n (now, INCREMENT)) = 0"
  by (induction n) (simp_all add: decrements_def)

lemma dispatch_increments:
  "- (2 ^ 53) \<le> count state \<Longrightarrow> count state + int n \<le> 2 ^ 53 \<Longrightarrow>
   count (dispatch state (replicate n (now, INCREMENT))) = count state + int n"
proof (induction n arbitrary: state)
  case 0
  show ?case by simp
next
  case (Suc n)
  have "count (reducer now state INCREMENT) = count state + 1"
    using Suc.prems by (simp add: js_add_def round_double_exact)
  moreover have "count (dispatch (reducer now state INCREMENT) (replicate n (now, INCREMENT)))
      = count (reducer now state INCREMENT) + int n"
    using Suc.prems calculation by (intro Suc.IH) simp_all
  ultimately show ?case by simp
qed

lemma count_after_increment:
  "count (reducer now state INCREMENT) = round_double (count state + 1)"
  by (simp add: js_add_def)

text \<open>A session of at most \<open>2^53\<close> calls keeps its running count in the exact range.\<close>

lemma running_within_length:
  assumes "length calls \<le> 2 ^ 53"
  shows "list_all (\<lambda>c. \<bar>c\<bar> \<le> 2 ^ 53) (running calls)"
proof -
  have "\<bar>int (increments p) - int (decrements p)\<bar> \<le> 2 ^ 53" if "prefix p calls" for p
  proof -
    have "increments p \<le> length p" and "decrements p \<le> length p"
      by (simp_all add: increments_def decrements_def)
    moreover from that have "length p \<le> length calls" by (rule prefix_length_le)
    ultimately have "increments p \<le> 2 ^ 53" and "decrements p \<le> 2 ^ 53"
      using assms by simp_all
    then have "int (increments p) \<le> 2 ^ 53" and "int (decrements p) \<le> 2 ^ 53"
      by (metis of_nat_le_iff of_nat_numeral of_nat_power)+
    then show ?thesis by linarith
  qed
  then show ?thesis by (simp add: running_def list_all_iff)
qed

text \<open>
  C1, as stated, fails: the count is a double, and \<open>2^53 + 1\<close> increments from 0 leave
  it at \<open>2^53\<close>, where \<^verbatim>\<open>count + 1\<close> rounds back to \<^verbatim>\<open>count\<close>, one short of the
  number of increment calls.
\<close>

theorem count_saturates_counterexample:
  "count (dispatch initialState (replicate (2 ^ 53 + 1) (0, INCREMENT)))
     \<noteq> int (increments (replicate (2 ^ 53 + 1) (0, INCREMENT)))
       - int (decrements (replicate (2 ^ 53 + 1) (0, INCREMENT)))
   \<and> count (dispatch initialState (replicate (2 ^ 53 + 1) (0, INCREMENT))) = 2 ^ 53
   \<and> int (increments (replicate (2 ^ 53 + 1) (0, INCREMENT)))
       - int (decrements (replicate (2 ^ 53 + 1) (0, INCREMENT))) = 2 ^ 53 + 1"
proof -
  let ?n = "2 ^ 53 :: nat"
  have "count (dispatch initialState (replicate ?n (0, INCREMENT))) = count initialState + int ?n"
    by (rule dispatch_increments) (simp_all only: initialState_def State.simps, simp_all)
  then have at_limit: "count (dispatch initialState (replicate ?n (0, INCREMENT))) = 2 ^ 53"
    by (simp only: initialState_def State.simps) simp
  have "replicate (?n + 1) (0::int, INCREMENT) = replicate ?n (0, INCREMENT) @ [(0, INCREMENT)]"
    by (simp only: replicate_add) simp
  then have "count (dispatch initialState (replicate (?n + 1) (0, INCREMENT)))
      = count (reducer 0 (dispatch initialState (replicate ?n (0, INCREMENT))) INCREMENT)"
    by (simp only: dispatch_append dispatch.simps)
  also have "\<dots> = round_double (2 ^ 53 + 1)"
    by (simp only: count_after_increment at_limit)
  also have "\<dots> = 2 ^ 53" by (rule round_double_above)
  finally have stuck: "count (dispatch initialState (replicate (?n + 1) (0, INCREMENT))) = 2 ^ 53" .
  have "int (increments (replicate (?n + 1) (0::int, INCREMENT)))
          - int (decrements (replicate (?n + 1) (0, INCREMENT))) = int (?n + 1)"
    by (simp only: increments_replicate decrements_replicate)
  also have "\<dots> = 2 ^ 53 + 1" by simp
  finally have calls: "int (increments (replicate (?n + 1) (0::int, INCREMENT)))
      - int (decrements (replicate (?n + 1) (0, INCREMENT))) = 2 ^ 53 + 1" .
  show ?thesis unfolding stuck calls by simp
qed

text \<open>
  C1, amended. For every finite sequence of increment and decrement calls applied to
  the initial state with count 0 whose running count (increments so far minus
  decrements so far) stays between \<open>- 2^53\<close> and \<open>2^53\<close>, the final count is the number of
  increment calls minus the number of decrement calls, in the reducer, the zustand and
  the mobx store. Every session of at most \<open>2^53\<close> calls is such a sequence. Decrement
  is not rejected at 0: the witness ends at \<open>-1\<close>.
\<close>

theorem count_is_signed_sum:
  assumes "snd ` set calls \<subseteq> {INCREMENT, DECREMENT}"
    and "list_all (\<lambda>c. \<bar>c\<bar> \<le> 2 ^ 53) (running calls)"
  shows "count (dispatch initialState calls) = int (increments calls) - int (decrements calls)
       \<and> count (useStore initialState calls) = int (increments calls) - int (decrements calls)
       \<and> count (Store initialState calls) = int (increments calls) - int (decrements calls)"
proof -
  from assms(2) have
    "list_all (\<lambda>p. \<bar>count initialState + (int (increments p) - int (decrements p))\<bar> \<le> 2 ^ 53)
       (prefixes calls)"
    by (simp add: running_def list_all_iff initialState_def)
  with assms(1) have "count (dispatch initialState calls)
      = count initialState + (int (increments calls) - int (decrements calls))"
    by (rule dispatch_counter)
  then show ?thesis
    by (simp add: useStore_dispatch Store_dispatch initialState_def)
qed

theorem count_is_signed_sum_witness:
  "snd ` set [(0, DECREMENT), (0, DECREMENT), (0, INCREMENT)] \<subseteq> {INCREMENT, DECREMENT}
   \<and> list_all (\<lambda>c. \<bar>c\<bar> \<le> 2 ^ 53) (running [(0, DECREMENT), (0, DECREMENT), (0, INCREMENT)])
   \<and> count (dispatch initialState [(0, DECREMENT), (0, DECREMENT), (0, INCREMENT)]) = - 1
   \<and> count (useStore initialState [(0, DECREMENT), (0, DECREMENT), (0, INCREMENT)]) = - 1
   \<and> count (Store initialState [(0, DECREMENT), (0, DECREMENT), (0, INCREMENT)]) = - 1"
proof -
  have only: "snd ` set [(0::int, DECREMENT), (0, DECREMENT), (0, INCREMENT)] \<subseteq> {INCREMENT, DECREMENT}"
    by simp
  have bounded: "list_all (\<lambda>c. \<bar>c\<bar> \<le> 2 ^ 53) (running [(0, DECREMENT), (0, DECREMENT), (0, INCREMENT)])"
    by (simp add: running_def increments_def decrements_def)
  show ?thesis
    using only bounded count_is_signed_sum [OF only bounded]
    by (simp add: increments_def decrements_def)
qed

section \<open>Removing and adding todos\<close>

text \<open>
  C5. For every state and every id that matches no todo in the list, removing that id
  changes nothing: the whole state, the list of todos included, is the state before.
  The three transitions are total functions, so there is no raise to model.
\<close>

theorem removeTodo_unmatched_noop:
  assumes "ref \<notin> id' ` set (todos state)"
  shows "reducer now state (REMOVE_TODO ref) = state
       \<and> removeTodo ref state = state
       \<and> Store_removeTodo ref state = state"
proof -
  from assms have "filter (\<lambda>todo. id' todo \<noteq> ref) (todos state) = todos state"
    by (auto simp add: filter_id_conv)
  then show ?thesis
    by (simp add: removeTodo_def Store_removeTodo_def)
qed

theorem removeTodo_unmatched_noop_witness:
  "[0x36] \<notin> id' ` set (todos \<lparr>count = 3, todos = [\<lparr>id' = [0x35], text' = [0x61]\<rparr>]\<rparr>)
   \<and> reducer 9 \<lparr>count = 3, todos = [\<lparr>id' = [0x35], text' = [0x61]\<rparr>]\<rparr> (REMOVE_TODO [0x36])
       = \<lparr>count = 3, todos = [\<lparr>id' = [0x35], text' = [0x61]\<rparr>]\<rparr>
   \<and> removeTodo [0x36] \<lparr>count = 3, todos = [\<lparr>id' = [0x35], text' = [0x61]\<rparr>]\<rparr>
       = \<lparr>count = 3, todos = [\<lparr>id' = [0x35], text' = [0x61]\<rparr>]\<rparr>
   \<and> Store_removeTodo [0x36] \<lparr>count = 3, todos = [\<lparr>id' = [0x35], text' = [0x61]\<rparr>]\<rparr>
       = \<lparr>count = 3, todos = [\<lparr>id' = [0x35], text' = [0x61]\<rparr>]\<rparr>"
proof -
  have h: "[0x36] \<notin> id' ` set (todos \<lparr>count = 3, todos = [\<lparr>id' = [0x35], text' = [0x61]\<rparr>]\<rparr>)"
    by simp
  show ?thesis
    using h removeTodo_unmatched_noop [OF h, of 9] by simp
qed

text \<open>
  C6. For every state and every text, adding a todo yields the prior list with one new
  entry at the tail, whose id is the clock reading in decimal and whose text is the
  given one: the list is one longer and its first part is the prior list, in order.
  The zustand and mobx stores make the same transition.
\<close>

theorem addTodo_appends_at_tail:
  "todos (reducer now state (ADD_TODO txt)) = todos state @ [\<lparr>id' = toString now, text' = txt\<rparr>]
   \<and> length (todos (reducer now state (ADD_TODO txt))) = length (todos state) + 1
   \<and> take (length (todos state)) (todos (reducer now state (ADD_TODO txt))) = todos state
   \<and> last (todos (reducer now state (ADD_TODO txt))) = \<lparr>id' = toString now, text' = txt\<rparr>
   \<and> addTodo now txt state = reducer now state (ADD_TODO txt)
   \<and> Store_addTodo now txt state = reducer now state (ADD_TODO txt)"
  by (simp add: addTodo_def Store_addTodo_def)

text \<open>
  C10. In the id-keyed stores, removing an id removes every todo that carries it: with
  \<open>k\<close> such entries the list gets \<open>k\<close> shorter, what remains is a subsequence of the
  prior list (so the order is kept), and it holds exactly the entries with another id.
\<close>

theorem removeTodo_removes_every_match:
  "length (todos (reducer now state (REMOVE_TODO ref)))
     + length (filter (\<lambda>todo. id' todo = ref) (todos state)) = length (todos state)
   \<and> subseq (todos (reducer now state (REMOVE_TODO ref))) (todos state)
   \<and> set (todos (reducer now state (REMOVE_TODO ref))) = {todo \<in> set (todos state). id' todo \<noteq> ref}
   \<and> removeTodo ref state = reducer now state (REMOVE_TODO ref)
   \<and> Store_removeTodo ref state = reducer now state (REMOVE_TODO ref)"
proof -
  have "length (filter (\<lambda>todo. id' todo \<noteq> ref) (todos state))
          + length (filter (\<lambda>todo. id' todo = ref) (todos state)) = length (todos state)"
    using sum_length_filter_compl [of "\<lambda>todo. id' todo \<noteq> ref" "todos state"] by simp
  then show ?thesis
    by (simp add: removeTodo_def Store_removeTodo_def)
qed

text \<open>
  C2, as stated, fails: the removal takes every todo with the id, so when the list
  already holds a todo with the id the new one gets (one added in the same millisecond),
  the pair of calls removes that one too.
\<close>

theorem add_then_remove_counterexample:
  "todos (reducer 6 (reducer 5 \<lparr>count = 0, todos = [\<lparr>id' = toString 5, text' = [0x61]\<rparr>]\<rparr> (ADD_TODO [0x62]))
       (REMOVE_TODO (id' (last (todos
          (reducer 5 \<lparr>count = 0, todos = [\<lparr>id' = toString 5, text' = [0x61]\<rparr>]\<rparr> (ADD_TODO [0x62])))))))
     \<noteq> todos \<lparr>count = 0, todos = [\<lparr>id' = toString 5, text' = [0x61]\<rparr>]\<rparr>"
  by simp

text \<open>
  C2, amended. For every state in which no todo carries the id the new todo gets,
  adding a todo and immediately removing the id assigned to it gives back the state
  before the two calls, list of todos included.
\<close>

theorem add_then_remove_restores:
  assumes "toString now \<notin> id' ` set (todos state)"
  shows "reducer later (reducer now state (ADD_TODO txt))
           (REMOVE_TODO (id' (last (todos (reducer now state (ADD_TODO txt)))))) = state
       \<and> removeTodo (id' (last (todos (addTodo now txt state)))) (addTodo now txt state) = state
       \<and> Store_removeTodo (id' (last (todos (Store_addTodo now txt state))))
           (Store_addTodo now txt state) = state"
proof -
  from assms have "\<forall>todo \<in> set (todos state). id' todo \<noteq> toString now"
    by (metis imageI)
  then have "filter (\<lambda>todo. id' todo \<noteq> toString now) (todos state) = todos state"
    by (simp add: filter_id_conv)
  then show ?thesis
    by (simp add: addTodo_def removeTodo_def Store_addTodo_def Store_removeTodo_def)
qed

theorem add_then_remove_restores_witness:
  "toString 6 \<notin> id' ` set (todos \<lparr>count = 2, todos = [\<lparr>id' = toString 5, text' = [0x61]\<rparr>]\<rparr>)
   \<and> reducer 7 (reducer 6 \<lparr>count = 2, todos = [\<lparr>id' = toString 5, text' = [0x61]\<rparr>]\<rparr> (ADD_TODO [0x62]))
        (REMOVE_TODO (toString 6))
       = \<lparr>count = 2, todos = [\<lparr>id' = toString 5, text' = [0x61]\<rparr>]\<rparr>"
proof -
  have fresh: "toString 6 \<notin> id' ` set (todos \<lparr>count = 2, todos = [\<lparr>id' = toString 5, text' = [0x61]\<rparr>]\<rparr>)"
    by (simp add: toString_eq_iff)
  show ?thesis
    using fresh add_then_remove_restores [OF fresh, of 7 "[0x62]"] by simp
qed

section \<open>Generated ids\<close>

lemma dispatch_addTodos:
  "todos (dispatch state (addTodos adds))
     = todos state @ map (\<lambda>(now, txt). \<lparr>id' = toString now, text' = txt\<rparr>) adds"
  by (induction adds arbitrary: state) (auto simp add: addTodos_def)

lemma ids_addTodos:
  "map id' (todos (dispatch initialState (addTodos adds))) = map toString (map fst adds)"
  by (simp add: dispatch_addTodos initialState_def case_prod_unfold comp_def)

text \<open>
  C3, as stated, fails: the id is the clock reading in milliseconds, and two
  consecutive \<^verbatim>\<open>addTodo\<close> calls in the same millisecond get the same id.
\<close>

theorem same_millisecond_ids_counterexample:
  "\<not> distinct (map id' (todos (dispatch initialState (addTodos [(5, [0x61]), (5, [0x62])]))))"
  by (simp add: addTodos_def initialState_def)

text \<open>
  C3, amended. The ids assigned to the todos created by consecutive \<^verbatim>\<open>addTodo\<close> calls
  of one session are pairwise distinct exactly when the clock readings at those calls
  are pairwise distinct.
\<close>

theorem ids_distinct_iff_clock_distinct:
  "distinct (map id' (todos (dispatch initialState (addTodos adds)))) = distinct (map fst adds)
   \<and> distinct (map id' (todos (Store initialState (addTodos adds)))) = distinct (map fst adds)
   \<and> distinct (map id' (todos (useStore initialState (addTodos adds)))) = distinct (map fst adds)"
proof -
  have "inj_on toString (set (map fst adds))"
    by (rule inj_onI) (rule toString_inj)
  then have "distinct (map toString (map fst adds)) = distinct (map fst adds)"
    by (simp only: distinct_map) simp
  then show ?thesis
    by (simp only: Store_dispatch useStore_dispatch ids_addTodos)
qed

section \<open>Length after a removal\<close>

text \<open>
  C4, as stated, fails: two todos added in the same millisecond share their id, and
  removing that id, which matches an entry, shortens the list by two.
\<close>

theorem removeTodo_shared_id_counterexample:
  "toString 5 \<in> id' ` set (todos (dispatch initialState [(5, ADD_TODO [0x61]), (5, ADD_TODO [0x62])]))
   \<and> length (todos (reducer 6 (dispatch initialState [(5, ADD_TODO [0x61]), (5, ADD_TODO [0x62])])
         (REMOVE_TODO (toString 5))))
       \<noteq> length (todos (dispatch initialState [(5, ADD_TODO [0x61]), (5, ADD_TODO [0x62])])) - 1
   \<and> length (todos (dispatch initialState [(5, ADD_TODO [0x61]), (5, ADD_TODO [0x62])])) = 2
   \<and> length (todos (reducer 6 (dispatch initialState [(5, ADD_TODO [0x61]), (5, ADD_TODO [0x62])])
         (REMOVE_TODO (toString 5)))) = 0"
  by (simp add: initialState_def)

text \<open>
  C4, amended. For every state and every id \<open>ref\<close>, removing \<open>ref\<close> yields a list
  exactly one shorter when \<open>ref\<close> matches exactly one entry, and the list unchanged when
  \<open>ref\<close> matches no entry; the mobx store makes the same transition as the reducer.
\<close>

theorem removeTodo_length:
  "(length (filter (\<lambda>todo. id' todo = ref) (todos state)) = 1 \<longrightarrow>
      length (todos (reducer now state (REMOVE_TODO ref))) + 1 = length (todos state))
   \<and> (ref \<notin> id' ` set (todos state) \<longrightarrow>
      todos (reducer now state (REMOVE_TODO ref)) = todos state)
   \<and> Store_removeTodo ref state = reducer now state (REMOVE_TODO ref)"
proof -
  have "length (filter (\<lambda>todo. id' todo \<noteq> ref) (todos state))
          + length (filter (\<lambda>todo. id' todo = ref) (todos state)) = length (todos state)"
    using sum_length_filter_compl [of "\<lambda>todo. id' todo \<noteq> ref" "todos state"] by simp
  moreover have "ref \<notin> id' ` set (todos state) \<longrightarrow>
      filter (\<lambda>todo. id' todo \<noteq> ref) (todos state) = todos state"
    by (auto simp add: filter_id_conv)
  ultimately show ?thesis
    by (simp add: Store_removeTodo_def)
qed

theorem removeTodo_length_witness:
  "length (filter (\<lambda>todo. id' todo = [0x35])
       (todos \<lparr>count = 0, todos = [\<lparr>id' = [0x35], text' = [0x61]\<rparr>, \<lparr>id' = [0x36], text' = [0x62]\<rparr>]\<rparr>)) = 1
   \<and> todos (reducer 9 \<lparr>count = 0, todos = [\<lparr>id' = [0x35], text' = [0x61]\<rparr>, \<lparr>id' = [0x36], text' = [0x62]\<rparr>]\<rparr>
        (REMOVE_TODO [0x35])) = [\<lparr>id' = [0x36], text' = [0x62]\<rparr>]
   \<and> [0x37] \<notin> id' ` set (todos \<lparr>count = 0, todos = [\<lparr>id' = [0x35], text' = [0x61]\<rparr>, \<lparr>id' = [0x36], text' = [0x62]\<rparr>]\<rparr>)
   \<and> todos (reducer 9 \<lparr>count = 0, todos = [\<lparr>id' = [0x35], text' = [0x61]\<rparr>, \<lparr>id' = [0x36], text' = [0x62]\<rparr>]\<rparr>
        (REMOVE_TODO [0x37])) = [\<lparr>id' = [0x35], text' = [0x61]\<rparr>, \<lparr>id' = [0x36], text' = [0x62]\<rparr>]"
  using removeTodo_length [of "[0x35]" "\<lparr>count = 0, todos = [\<lparr>id' = [0x35], text' = [0x61]\<rparr>, \<lparr>id' = [0x36], text' = [0x62]\<rparr>]\<rparr>" 9]
    removeTodo_length [of "[0x37]" "\<lparr>count = 0, todos = [\<lparr>id' = [0x35], text' = [0x61]\<rparr>, \<lparr>id' = [0x36], text' = [0x62]\<rparr>]\<rparr>" 9]
  by simp

section \<open>What a transition changes and what it reads\<close>

text \<open>
  C8, as stated, fails in its last part: \<^verbatim>\<open>ADD_TODO\<close> reads the clock, which is no
  part of the state, and the same state and text give different states at different
  clock readings.
\<close>

theorem addTodo_reads_clock_counterexample:
  "reducer 1 initialState (ADD_TODO [0x61]) \<noteq> reducer 2 initialState (ADD_TODO [0x61])"
  by (simp add: initialState_def toString_eq_iff)

text \<open>
  C8, amended. Increment and decrement leave the todos unchanged; adding and removing a
  todo leave the count unchanged; increment, decrement and removal give a state that
  depends on the prior state and the argument only, whatever the clock reads; adding a
  todo reads the clock as well, for the id. Every call on the zustand store is the
  reducer's transition of the same name.
\<close>

theorem transitions_frame:
  "todos (reducer now state INCREMENT) = todos state
   \<and> todos (reducer now state DECREMENT) = todos state
   \<and> count (reducer now state (ADD_TODO txt)) = count state
   \<and> count (reducer now state (REMOVE_TODO ref)) = count state
   \<and> reducer now state INCREMENT = reducer later state INCREMENT
   \<and> reducer now state DECREMENT = reducer later state DECREMENT
   \<and> reducer now state (REMOVE_TODO ref) = reducer later state (REMOVE_TODO ref)
   \<and> increment state = reducer now state INCREMENT
   \<and> decrement state = reducer now state DECREMENT
   \<and> addTodo now txt state = reducer now state (ADD_TODO txt)
   \<and> removeTodo ref state = reducer now state (REMOVE_TODO ref)"
  by (simp add: increment_def decrement_def addTodo_def removeTodo_def)

section \<open>Removal by position and removal by id\<close>

lemma filter_index_snoc:
  "filter_index p (xs @ [x]) = filter_index p xs @ (if p (length xs) then [x] else [])"
  by (simp add: filter_index_def)

lemma filter_index_all: "(\<And>k. k < length xs \<Longrightarrow> p k) \<Longrightarrow> filter_index p xs = xs"
proof (induction xs rule: rev_induct)
  case Nil
  show ?case by (simp add: filter_index_def)
next
  case (snoc x xs)
  then show ?case by (simp add: filter_index_snoc)
qed

lemma filter_index_remove:
  "i < length xs \<Longrightarrow> filter_index (\<lambda>index. index \<noteq> i) xs = take i xs @ drop (Suc i) xs"
proof (induction xs rule: rev_induct)
  case Nil
  then show ?case by simp
next
  case (snoc x xs)
  show ?case
  proof (cases "i = length xs")
    case True
    then have "filter_index (\<lambda>index. index \<noteq> i) xs = xs"
      by (intro filter_index_all) simp
    with True show ?thesis by (simp add: filter_index_snoc)
  next
    case False
    with snoc.prems have "i < length xs" by simp
    with snoc.IH show ?thesis by (simp add: filter_index_snoc)
  qed
qed

text \<open>
  C9. In the store keyed on positions, \<^verbatim>\<open>REMOVE_TODO\<close> with payload \<open>i\<close> removes exactly
  the item at position \<open>i\<close>, so what is left is the items before it followed by the
  items after it, and leaves the items unchanged when \<open>i\<close> is out of range; the counter
  is untouched. The id-keyed stores keep exactly the todos whose id differs from the
  given one, wherever they stand.
\<close>

theorem REMOVE_TODO_by_position:
  "items (todos_ix (reducer_ix state_ix (REMOVE_TODO_ix i)))
     = (if 0 \<le> i \<and> i < int (length (items (todos_ix state_ix)))
        then take (nat i) (items (todos_ix state_ix)) @ drop (Suc (nat i)) (items (todos_ix state_ix))
        else items (todos_ix state_ix))
   \<and> counter (reducer_ix state_ix (REMOVE_TODO_ix i)) = counter state_ix
   \<and> todos (reducer now state (REMOVE_TODO ref)) = filter (\<lambda>todo. id' todo \<noteq> ref) (todos state)
   \<and> todos (removeTodo ref state) = filter (\<lambda>todo. id' todo \<noteq> ref) (todos state)
   \<and> todos (Store_removeTodo ref state) = filter (\<lambda>todo. id' todo \<noteq> ref) (todos state)"
proof -
  let ?xs = "items (todos_ix state_ix)"
  have "filter_index (\<lambda>index. int index \<noteq> i) ?xs
      = (if 0 \<le> i \<and> i < int (length ?xs) then take (nat i) ?xs @ drop (Suc (nat i)) ?xs else ?xs)"
  proof (cases "0 \<le> i \<and> i < int (length ?xs)")
    case True
    then have "(\<lambda>index. int index \<noteq> i) = (\<lambda>index. index \<noteq> nat i)" by auto
    moreover from True have "nat i < length ?xs" by linarith
    ultimately show ?thesis using True by (simp add: filter_index_remove)
  next
    case False
    then have "filter_index (\<lambda>index. int index \<noteq> i) ?xs = ?xs"
      by (intro filter_index_all) auto
    then show ?thesis unfolding if_not_P [OF False] .
  qed
  then show ?thesis
    by (simp add: removeTodo_def Store_removeTodo_def)
qed

section \<open>The add handler\<close>

lemma onPress_blank: "trim newTodo = [] \<Longrightarrow> onPress onAddTodo (newTodo, store) = (newTodo, store)"
  by (simp add: onPress_def)

lemma onPress_text:
  "trim newTodo \<noteq> [] \<Longrightarrow> onPress onAddTodo (newTodo, store) = ([], onAddTodo newTodo store)"
  by (simp add: onPress_def)

lemma trim_whitespace_only: "list_all isWhiteSpace s \<Longrightarrow> trim s = []"
proof -
  assume "list_all isWhiteSpace s"
  then have blank: "dropWhile isWhiteSpace s = []"
    by (induction s) simp_all
  show ?thesis unfolding trim_def blank by simp
qed

text \<open>
  C7. The handler calls \<^verbatim>\<open>onAddTodo\<close> only when the input is non-empty after trimming
  (the lemmas above), but it passes the input as typed, not the trimmed string: for
  the input of a space and the letter a, whose trimmed form is the letter alone, the
  callback receives both code units, and the reducer behind \<^verbatim>\<open>ContextScreen\<close> stores
  them as the todo's text.
\<close>

theorem onPress_passes_untrimmed_text:
  "trim [0x20, 0x61] = [0x61]
   \<and> onPress record_call ([0x20, 0x61], []) = ([], [[0x20, 0x61]])
   \<and> onPress (\<lambda>txt state. reducer 5 state (ADD_TODO txt)) ([0x20, 0x61], initialState)
       = ([], \<lparr>count = 0, todos = [\<lparr>id' = toString 5, text' = [0x20, 0x61]\<rparr>]\<rparr>)"
  by (simp add: trim_def isWhiteSpace_def onPress_def record_call_def initialState_def)

end
